theory Spec2Isabelle
  imports Main "HOL-Library.Sublist"
begin

section \<open>Strings and the string helpers\<close>

text \<open>
  \<^verbatim>\<open>std::wstring\<close> values are modelled as HOL strings: the list of the characters
  before the terminating NUL. So \<^verbatim>\<open>c_str()\<close> is the identity and \<^verbatim>\<open>empty()\<close> is the
  test against the empty list. A NUL inside a string, which a configuration attribute
  cannot hold, is not modelled. \<^verbatim>\<open>std::optional\<close> is \<open>option\<close> and its \<^verbatim>\<open>value_or\<close> is
  \<open>value_or\<close>.
\<close>

type_synonym wstring = string

definition value_or :: "'a option \<Rightarrow> 'a \<Rightarrow> 'a" where
  "value_or x d = (case x of None \<Rightarrow> d | Some v \<Rightarrow> v)"

text \<open>
  Modelled from the spec: the case folding behind \<^verbatim>\<open>equals_ignore_case\<close>
  (StringHelpers.h is not part of the sources). The spec speaks of a case-insensitive
  match; the model folds the letters A to Z onto a to z and leaves every other character
  alone.
\<close>

definition towlower :: "char \<Rightarrow> char" where
  "towlower c =
     (case map_of (zip ''ABCDEFGHIJKLMNOPQRSTUVWXYZ'' ''abcdefghijklmnopqrstuvwxyz'') c of
        None \<Rightarrow> c
      | Some l \<Rightarrow> l)"

text \<open>
  Modelled from the spec: \<^verbatim>\<open>equals_ignore_case(s1, s2)\<close>, the case-insensitive
  comparison of two strings (declared in StringHelpers.h, not part of the sources).
\<close>

definition equals_ignore_case :: "wstring \<Rightarrow> wstring \<Rightarrow> bool" where
  "equals_ignore_case s1 s2 = (map towlower s1 = map towlower s2)"

text \<open>
  Modelled from the spec: \<^verbatim>\<open>format(fmt, args...)\<close> (declared in StringHelpers.h, not
  part of the sources). The spec requires the error message to include the offending
  value, which the constructor passes for the \<^verbatim>\<open>%s\<close> directive of its format string;
  the model replaces each \<^verbatim>\<open>%s\<close> by the next argument and copies every other
  character.
\<close>

fun format :: "wstring \<Rightarrow> wstring list \<Rightarrow> wstring" where
  "format [] args = []"
| "format [c] args = [c]"
| "format (c # d # fmt) args =
     (if c = CHR ''%'' \<and> d = CHR ''s''
      then (case args of [] \<Rightarrow> format fmt [] | a # as \<Rightarrow> a @ format fmt as)
      else c # format (d # fmt) args)"

section \<open>The configuration source and the environment\<close>

text \<open>The only exception the constructor raises or lets through; it carries a message.\<close>

datatype ConfigurationLoadException = ConfigurationLoadException (message: wstring)

text \<open>
  Modelled from the spec: the configuration section (its class is declared outside the
  sources). Section 6 of the spec lists its read operations: \<^verbatim>\<open>GetString(key)\<close>
  returns an optional string, \<^verbatim>\<open>GetKeyValuePairs(key)\<close> and \<^verbatim>\<open>GetMap(key)\<close> return a
  mapping from strings to strings. \<open>GetBool\<close> is the optional boolean behind
  \<^verbatim>\<open>GetRequiredBool\<close>: \<open>None\<close> when the key is missing or its value does not parse.
\<close>

record ConfigurationSection =
  GetString :: "wstring \<Rightarrow> wstring option"
  GetBool :: "wstring \<Rightarrow> bool option"
  GetKeyValuePairs :: "wstring \<Rightarrow> (wstring \<rightharpoonup> wstring)"
  GetMap :: "wstring \<Rightarrow> (wstring \<rightharpoonup> wstring)"

record ConfigurationSource =
  GetSection :: "wstring \<Rightarrow> ConfigurationSection option"

text \<open>
  Modelled from the spec: \<^verbatim>\<open>GetRequiredSection(sectionName)\<close> fails if the section is
  missing, \<^verbatim>\<open>GetRequiredString(key)\<close> fails if the key is missing and
  \<^verbatim>\<open>GetRequiredBool(key)\<close> fails if the key is missing or unparseable (none of the three
  is part of the sources). Each failure is a \<open>ConfigurationLoadException\<close> whose message
  identifies the offending key; the wording is not given, so the message is the name alone.
\<close>

definition GetRequiredSection ::
  "ConfigurationSource \<Rightarrow> wstring \<Rightarrow> ConfigurationLoadException + ConfigurationSection" where
  "GetRequiredSection source name =
     (case GetSection source name of
        None \<Rightarrow> Inl (ConfigurationLoadException name)
      | Some s \<Rightarrow> Inr s)"

definition GetRequiredString ::
  "ConfigurationSection \<Rightarrow> wstring \<Rightarrow> ConfigurationLoadException + wstring" where
  "GetRequiredString s name =
     (case GetString s name of
        None \<Rightarrow> Inl (ConfigurationLoadException name)
      | Some v \<Rightarrow> Inr v)"

definition GetRequiredBool ::
  "ConfigurationSection \<Rightarrow> wstring \<Rightarrow> ConfigurationLoadException + bool" where
  "GetRequiredBool s name =
     (case GetBool s name of
        None \<Rightarrow> Inl (ConfigurationLoadException name)
      | Some v \<Rightarrow> Inr v)"

text \<open>
  Modelled from the spec: \<^verbatim>\<open>find_element(pairs, name)\<close> (not part of the sources) looks
  up the key literally named \<open>name\<close> in a key-value collection and returns its value when
  there is one.
\<close>

definition find_element :: "(wstring \<rightharpoonup> wstring) \<Rightarrow> wstring \<Rightarrow> wstring option" where
  "find_element pairs name = pairs name"

text \<open>
  The subscript operator of \<^verbatim>\<open>std::map\<close>: it returns the value stored under the key and,
  when there is none, stores a default-constructed (empty) string there first. The model
  returns the value together with the map after the call.
\<close>

definition map_subscript ::
  "(wstring \<rightharpoonup> wstring) \<Rightarrow> wstring \<Rightarrow> wstring \<times> (wstring \<rightharpoonup> wstring)" where
  "map_subscript m k =
     (case m k of
        None \<Rightarrow> ([], m(k \<mapsto> []))
      | Some v \<Rightarrow> (v, m))"

text \<open>
  Modelled from the spec: the environment accessor,
  \<^verbatim>\<open>Environment::GetEnvironmentVariableValue(name)\<close>, returns an optional string for a
  named variable of the process environment. The environment is an explicit argument.
\<close>

type_synonym Environment = "wstring \<Rightarrow> wstring option"

definition GetEnvironmentVariableValue :: "Environment \<Rightarrow> wstring \<Rightarrow> wstring option" where
  "GetEnvironmentVariableValue env name = env name"

section \<open>The constants\<close>

text \<open>
  The \<^verbatim>\<open>CS_ASPNETCORE_*\<close> macros are defined in a header that is not part of the sources.
  The spec speaks of the section, of its keys and of the default argument string without
  giving the strings themselves, so they are parameters of the model: every function
  below takes the record \<open>K\<close> of their values.
\<close>

record Macros =
  CS_ASPNETCORE_SECTION :: wstring
  CS_ASPNETCORE_HOSTING_MODEL :: wstring
  CS_ASPNETCORE_HANDLER_SETTINGS :: wstring
  CS_ASPNETCORE_PROCESS_EXE_PATH :: wstring
  CS_ASPNETCORE_PROCESS_ARGUMENTS :: wstring
  CS_ASPNETCORE_PROCESS_ARGUMENTS_DEFAULT :: wstring
  CS_ASPNETCORE_STDOUT_LOG_ENABLED :: wstring
  CS_ASPNETCORE_STDOUT_LOG_FILE :: wstring
  CS_ASPNETCORE_DISABLE_START_UP_ERROR_PAGE :: wstring
  CS_ASPNETCORE_ENVIRONMENT_VARIABLES :: wstring

text \<open>
  Modelled from the spec: the two spellings of the hosting model, which the spec states
  and the constructor's own error message repeats.
\<close>

definition CS_ASPNETCORE_HOSTING_MODEL_OUTOFPROCESS :: wstring where
  "CS_ASPNETCORE_HOSTING_MODEL_OUTOFPROCESS = ''outofprocess''"

definition CS_ASPNETCORE_HOSTING_MODEL_INPROCESS :: wstring where
  "CS_ASPNETCORE_HOSTING_MODEL_INPROCESS = ''inprocess''"

text \<open>ShimOptions.cpp, line 10.\<close>

definition CS_ASPNETCORE_HANDLER_VERSION :: wstring where
  "CS_ASPNETCORE_HANDLER_VERSION = ''handlerVersion''"

text \<open>The format string of the exception thrown at lines 29 to 31.\<close>

definition unknown_hosting_model_format :: wstring where
  \<open>unknown_hosting_model_format =
     ''Unknown hosting model '%s'. Please specify either hostingModel="inprocess" or hostingModel="outofprocess" in the web.config file.''\<close>

section \<open>The options object and its constructor\<close>

datatype APP_HOSTING_MODEL = HOSTING_UNKNOWN | HOSTING_IN_PROCESS | HOSTING_OUT_PROCESS

record ShimOptions =
  m_strArguments :: wstring
  m_strProcessPath :: wstring
  m_hostingModel :: APP_HOSTING_MODEL
  m_strHandlerVersion :: wstring
  m_struStdoutLogFile :: wstring
  m_fStdoutLogEnabled :: bool
  m_fDisableStartupPage :: bool
  m_fShowDetailedErrors :: bool

text \<open>
  The object as the member initialiser list leaves it (lines 13 and 14): the hosting
  model is \<open>HOSTING_UNKNOWN\<close>, \<open>m_fStdoutLogEnabled\<close> is false and the strings are
  default-constructed. The two flags that the list does not name are assigned before the
  constructor returns (lines 44 and 67); the model starts them at false.
\<close>

definition initial_object :: ShimOptions where
  "initial_object =
     \<lparr> m_strArguments = [], m_strProcessPath = [], m_hostingModel = HOSTING_UNKNOWN,
       m_strHandlerVersion = [], m_struStdoutLogFile = [], m_fStdoutLogEnabled = False,
       m_fDisableStartupPage = False, m_fShowDetailedErrors = False \<rparr>"

text \<open>
  Lines 46 to 67: the derivation of \<open>m_fShowDetailedErrors\<close> from the process environment
  and from the environment variables declared in the configuration section. The local
  map is threaded through the three subscript calls, each of which may add an entry.
\<close>

definition show_detailed_errors :: "Environment \<Rightarrow> (wstring \<rightharpoonup> wstring) \<Rightarrow> bool" where
  "show_detailed_errors env environmentVariables0 =
     (let detailedErrors = value_or (GetEnvironmentVariableValue env ''ASPNETCORE_DETAILEDERRORS'') [];
          aspnetCoreEnvironment = value_or (GetEnvironmentVariableValue env ''ASPNETCORE_ENVIRONMENT'') [];
          dotnetEnvironment = value_or (GetEnvironmentVariableValue env ''DOTNET_ENVIRONMENT'') [];
          detailedErrorsEnabled =
            (equals_ignore_case ''1'' detailedErrors \<or> equals_ignore_case ''true'' detailedErrors);
          aspnetCoreEnvironmentEnabled = equals_ignore_case ''Development'' aspnetCoreEnvironment;
          dotnetEnvironmentEnabled = equals_ignore_case ''Development'' dotnetEnvironment;
          (detailedErrorsFromWebConfig, environmentVariables1) =
            map_subscript environmentVariables0 ''ASPNETCORE_DETAILEDERRORS'';
          (aspnetCoreEnvironmentFromWebConfig, environmentVariables2) =
            map_subscript environmentVariables1 ''ASPNETCORE_ENVIRONMENT'';
          (dotnetEnvironmentFromWebConfig, environmentVariables3) =
            map_subscript environmentVariables2 ''DOTNET_ENVIRONMENT'';
          detailedErrorsEnabled = (detailedErrorsEnabled \<or>
            (equals_ignore_case ''1'' detailedErrorsFromWebConfig \<or>
             equals_ignore_case ''true'' detailedErrorsFromWebConfig));
          aspnetCoreEnvironmentEnabled = (aspnetCoreEnvironmentEnabled \<or>
            equals_ignore_case ''Development'' aspnetCoreEnvironmentFromWebConfig);
          dotnetEnvironmentEnabled = (dotnetEnvironmentEnabled \<or>
            equals_ignore_case ''Development'' dotnetEnvironmentFromWebConfig)
      in detailedErrorsEnabled \<or> aspnetCoreEnvironmentEnabled \<or> dotnetEnvironmentEnabled)"

text \<open>
  The constructor \<^verbatim>\<open>ShimOptions::ShimOptions\<close>, lines 12 to 68. An exception leaves the
  constructor with \<open>Inl\<close> and the object under construction is dropped; a normal return
  yields the constructed object with \<open>Inr\<close>.
\<close>

definition ShimOptions_ShimOptions ::
  "Macros \<Rightarrow> Environment \<Rightarrow> ConfigurationSource \<Rightarrow> ConfigurationLoadException + ShimOptions" where
  "ShimOptions_ShimOptions K env configurationSource =
     (let this = initial_object in
      case GetRequiredSection configurationSource (CS_ASPNETCORE_SECTION K) of
        Inl e \<Rightarrow> Inl e
      | Inr section \<Rightarrow>
     (let hostingModel = value_or (GetString section (CS_ASPNETCORE_HOSTING_MODEL K)) [] in
      case (if hostingModel = [] \<or>
               equals_ignore_case hostingModel CS_ASPNETCORE_HOSTING_MODEL_OUTOFPROCESS
            then Inr (this\<lparr>m_hostingModel := HOSTING_OUT_PROCESS\<rparr>)
            else if equals_ignore_case hostingModel CS_ASPNETCORE_HOSTING_MODEL_INPROCESS
            then Inr (this\<lparr>m_hostingModel := HOSTING_IN_PROCESS\<rparr>)
            else Inl (ConfigurationLoadException
                        (format unknown_hosting_model_format [hostingModel]))) of
        Inl e \<Rightarrow> Inl e
      | Inr this \<Rightarrow>
     (let this =
        (if m_hostingModel this = HOSTING_OUT_PROCESS
         then (let handlerSettings =
                     GetKeyValuePairs section (CS_ASPNETCORE_HANDLER_SETTINGS K)
               in this\<lparr>m_strHandlerVersion :=
                    value_or (find_element handlerSettings CS_ASPNETCORE_HANDLER_VERSION) []\<rparr>)
         else this) in
      case GetRequiredString section (CS_ASPNETCORE_PROCESS_EXE_PATH K) of
        Inl e \<Rightarrow> Inl e
      | Inr processPath \<Rightarrow>
     (let this = this\<lparr>m_strProcessPath := processPath\<rparr>;
          this = this\<lparr>m_strArguments :=
                   value_or (GetString section (CS_ASPNETCORE_PROCESS_ARGUMENTS K))
                            (CS_ASPNETCORE_PROCESS_ARGUMENTS_DEFAULT K)\<rparr> in
      case GetRequiredBool section (CS_ASPNETCORE_STDOUT_LOG_ENABLED K) of
        Inl e \<Rightarrow> Inl e
      | Inr stdoutLogEnabled \<Rightarrow>
     (let this = this\<lparr>m_fStdoutLogEnabled := stdoutLogEnabled\<rparr> in
      case GetRequiredString section (CS_ASPNETCORE_STDOUT_LOG_FILE K) of
        Inl e \<Rightarrow> Inl e
      | Inr stdoutLogFile \<Rightarrow>
     (let this = this\<lparr>m_struStdoutLogFile := stdoutLogFile\<rparr> in
      case GetRequiredBool section (CS_ASPNETCORE_DISABLE_START_UP_ERROR_PAGE K) of
        Inl e \<Rightarrow> Inl e
      | Inr disableStartupPage \<Rightarrow>
     (let this = this\<lparr>m_fDisableStartupPage := disableStartupPage\<rparr>;
          environmentVariables = GetMap section (CS_ASPNETCORE_ENVIRONMENT_VARIABLES K)
      in Inr (this\<lparr>m_fShowDetailedErrors :=
                show_detailed_errors env environmentVariables\<rparr>))))))))"

section \<open>Derived notions used in the statements\<close>

text \<open>
  The test of lines 19 and 23 taken together: the hosting-model string is one that the
  constructor accepts.
\<close>

definition valid_hosting_model :: "wstring \<Rightarrow> bool" where
  "valid_hosting_model h \<longleftrightarrow>
     h = [] \<or> equals_ignore_case h CS_ASPNETCORE_HOSTING_MODEL_OUTOFPROCESS \<or>
     equals_ignore_case h CS_ASPNETCORE_HOSTING_MODEL_INPROCESS"

text \<open>
  The object that the constructor returns when no step throws, in closed form: \<open>p\<close>, \<open>e\<close>,
  \<open>f\<close> and \<open>d\<close> are the values of the four required keys. Lemma \<open>ctor_valid\<close> proves that
  the constructor returns exactly this object.
\<close>

definition resolved_object ::
  "Macros \<Rightarrow> Environment \<Rightarrow> ConfigurationSection \<Rightarrow> wstring \<Rightarrow> bool \<Rightarrow> wstring \<Rightarrow> bool
     \<Rightarrow> ShimOptions" where
  "resolved_object K env section p e f d =
     (let h = value_or (GetString section (CS_ASPNETCORE_HOSTING_MODEL K)) [];
          out = (h = [] \<or> equals_ignore_case h CS_ASPNETCORE_HOSTING_MODEL_OUTOFPROCESS)
      in \<lparr> m_strArguments = value_or (GetString section (CS_ASPNETCORE_PROCESS_ARGUMENTS K))
                               (CS_ASPNETCORE_PROCESS_ARGUMENTS_DEFAULT K),
           m_strProcessPath = p,
           m_hostingModel = (if out then HOSTING_OUT_PROCESS else HOSTING_IN_PROCESS),
           m_strHandlerVersion =
             (if out then value_or (GetKeyValuePairs section (CS_ASPNETCORE_HANDLER_SETTINGS K)
                                      CS_ASPNETCORE_HANDLER_VERSION) []
              else []),
           m_struStdoutLogFile = f,
           m_fStdoutLogEnabled = e,
           m_fDisableStartupPage = d,
           m_fShowDetailedErrors =
             show_detailed_errors env (GetMap section (CS_ASPNETCORE_ENVIRONMENT_VARIABLES K)) \<rparr>)"

text \<open>
  The spec's reading of the detailed-errors derivation, kept apart from the source's
  \<open>show_detailed_errors\<close>: one check of one source matches when the variable is there and
  equals the literal up to case (a missing variable never matches), and the result is
  the disjunction of the six checks.
\<close>

definition check_matches :: "wstring option \<Rightarrow> wstring \<Rightarrow> bool" where
  "check_matches v lit = (case v of None \<Rightarrow> False | Some s \<Rightarrow> equals_ignore_case s lit)"

definition spec_showDetailedErrors :: "Environment \<Rightarrow> (wstring \<rightharpoonup> wstring) \<Rightarrow> bool" where
  "spec_showDetailedErrors os cfg \<longleftrightarrow>
     (check_matches (os ''ASPNETCORE_DETAILEDERRORS'') ''1'' \<or>
      check_matches (os ''ASPNETCORE_DETAILEDERRORS'') ''true'') \<or>
     (check_matches (cfg ''ASPNETCORE_DETAILEDERRORS'') ''1'' \<or>
      check_matches (cfg ''ASPNETCORE_DETAILEDERRORS'') ''true'') \<or>
     check_matches (os ''ASPNETCORE_ENVIRONMENT'') ''Development'' \<or>
     check_matches (cfg ''ASPNETCORE_ENVIRONMENT'') ''Development'' \<or>
     check_matches (os ''DOTNET_ENVIRONMENT'') ''Development'' \<or>
     check_matches (cfg ''DOTNET_ENVIRONMENT'') ''Development''"

text \<open>
  A value \<open>v\<close> for the variable \<open>name\<close> is a matching one when \<open>name\<close> is one of the three
  variables of the derivation and \<open>v\<close> passes that variable's test.
\<close>

definition signal_matches :: "wstring \<Rightarrow> wstring \<Rightarrow> bool" where
  "signal_matches name v \<longleftrightarrow>
     name = ''ASPNETCORE_DETAILEDERRORS'' \<and>
       (equals_ignore_case v ''1'' \<or> equals_ignore_case v ''true'') \<or>
     name = ''ASPNETCORE_ENVIRONMENT'' \<and> equals_ignore_case v ''Development'' \<or>
     name = ''DOTNET_ENVIRONMENT'' \<and> equals_ignore_case v ''Development''"

text \<open>
  The configuration source that differs from \<open>source\<close> in one entry of the environment
  variables declared in the section: \<open>name\<close> is set to \<open>v\<close>.
\<close>

definition set_declared_variable ::
  "Macros \<Rightarrow> ConfigurationSource \<Rightarrow> wstring \<Rightarrow> wstring \<Rightarrow> ConfigurationSource" where
  "set_declared_variable K source name v =
     (case GetSection source (CS_ASPNETCORE_SECTION K) of
        None \<Rightarrow> source
      | Some section \<Rightarrow>
          source\<lparr>GetSection := (GetSection source)(CS_ASPNETCORE_SECTION K \<mapsto>
            section\<lparr>GetMap := (GetMap section)(CS_ASPNETCORE_ENVIRONMENT_VARIABLES K :=
              (GetMap section (CS_ASPNETCORE_ENVIRONMENT_VARIABLES K))(name \<mapsto> v))\<rparr>)\<rparr>)"

section \<open>Example configurations\<close>

text \<open>
  One choice of the constants, and three configuration sections: the two concrete
  scenarios of the spec and a section whose hosting model is \<open>foo\<close> and that has nothing
  else.
\<close>

definition example_macros :: Macros where
  "example_macros =
     \<lparr> CS_ASPNETCORE_SECTION = ''system.webServer/aspNetCore'',
       CS_ASPNETCORE_HOSTING_MODEL = ''hostingModel'',
       CS_ASPNETCORE_HANDLER_SETTINGS = ''handlerSettings'',
       CS_ASPNETCORE_PROCESS_EXE_PATH = ''processPath'',
       CS_ASPNETCORE_PROCESS_ARGUMENTS = ''arguments'',
       CS_ASPNETCORE_PROCESS_ARGUMENTS_DEFAULT = ''<default>'',
       CS_ASPNETCORE_STDOUT_LOG_ENABLED = ''stdoutLogEnabled'',
       CS_ASPNETCORE_STDOUT_LOG_FILE = ''stdoutLogFile'',
       CS_ASPNETCORE_DISABLE_START_UP_ERROR_PAGE = ''disableStartUpErrorPage'',
       CS_ASPNETCORE_ENVIRONMENT_VARIABLES = ''environmentVariables'' \<rparr>"

definition source_of :: "ConfigurationSection \<Rightarrow> ConfigurationSource" where
  "source_of section = \<lparr> GetSection = [''system.webServer/aspNetCore'' \<mapsto> section] \<rparr>"

definition inprocess_section :: ConfigurationSection where
  "inprocess_section =
     \<lparr> GetString = [''hostingModel'' \<mapsto> ''InProcess'', ''processPath'' \<mapsto> ''dotnet'',
                     ''stdoutLogFile'' \<mapsto> ''log.txt''],
       GetBool = [''stdoutLogEnabled'' \<mapsto> True, ''disableStartUpErrorPage'' \<mapsto> False],
       GetKeyValuePairs =
         (\<lambda>_. Map.empty)(''handlerSettings'' := [''handlerVersion'' \<mapsto> ''2.1'']),
       GetMap =
         (\<lambda>_. Map.empty)(''environmentVariables'' :=
            [''ASPNETCORE_ENVIRONMENT'' \<mapsto> ''Development'']) \<rparr>"

definition inprocess_options :: ShimOptions where
  "inprocess_options =
     \<lparr> m_strArguments = ''<default>'', m_strProcessPath = ''dotnet'',
       m_hostingModel = HOSTING_IN_PROCESS, m_strHandlerVersion = [],
       m_struStdoutLogFile = ''log.txt'', m_fStdoutLogEnabled = True,
       m_fDisableStartupPage = False, m_fShowDetailedErrors = True \<rparr>"

definition outofprocess_section :: ConfigurationSection where
  "outofprocess_section =
     \<lparr> GetString = [''processPath'' \<mapsto> ''w3wp'', ''arguments'' \<mapsto> ''app.dll'',
                     ''stdoutLogFile'' \<mapsto> ''log.txt''],
       GetBool = [''stdoutLogEnabled'' \<mapsto> False, ''disableStartUpErrorPage'' \<mapsto> True],
       GetKeyValuePairs =
         (\<lambda>_. Map.empty)(''handlerSettings'' := [''handlerVersion'' \<mapsto> ''1.0'']),
       GetMap = (\<lambda>_. Map.empty) \<rparr>"

definition outofprocess_options :: ShimOptions where
  "outofprocess_options =
     \<lparr> m_strArguments = ''app.dll'', m_strProcessPath = ''w3wp'',
       m_hostingModel = HOSTING_OUT_PROCESS, m_strHandlerVersion = ''1.0'',
       m_struStdoutLogFile = ''log.txt'', m_fStdoutLogEnabled = False,
       m_fDisableStartupPage = True, m_fShowDetailedErrors = False \<rparr>"

definition unknown_section :: ConfigurationSection where
  "unknown_section =
     \<lparr> GetString = [''hostingModel'' \<mapsto> ''foo''],
       GetBool = Map.empty,
       GetKeyValuePairs = (\<lambda>_. Map.empty),
       GetMap = (\<lambda>_. Map.empty) \<rparr>"

text \<open>
  A section with nothing in it, and the first scenario's section with the hosting model
  replaced by \<open>foo\<close>.
\<close>

definition empty_section :: ConfigurationSection where
  "empty_section =
     \<lparr> GetString = Map.empty, GetBool = Map.empty,
       GetKeyValuePairs = (\<lambda>_. Map.empty), GetMap = (\<lambda>_. Map.empty) \<rparr>"

definition unknown_complete_section :: ConfigurationSection where
  "unknown_complete_section =
     inprocess_section\<lparr>GetString := (GetString inprocess_section)(''hostingModel'' \<mapsto> ''foo'')\<rparr>"

text \<open>
  A section that holds the four required keys and nothing else, and the options that the
  constructor returns for it.
\<close>

definition minimal_section :: ConfigurationSection where
  "minimal_section =
     \<lparr> GetString = [''processPath'' \<mapsto> ''w3wp'', ''stdoutLogFile'' \<mapsto> ''log.txt''],
       GetBool = [''stdoutLogEnabled'' \<mapsto> False, ''disableStartUpErrorPage'' \<mapsto> False],
       GetKeyValuePairs = (\<lambda>_. Map.empty),
       GetMap = (\<lambda>_. Map.empty) \<rparr>"

definition minimal_options :: ShimOptions where
  "minimal_options =
     \<lparr> m_strArguments = ''<default>'', m_strProcessPath = ''w3wp'',
       m_hostingModel = HOSTING_OUT_PROCESS, m_strHandlerVersion = [],
       m_struStdoutLogFile = ''log.txt'', m_fStdoutLogEnabled = False,
       m_fDisableStartupPage = False, m_fShowDetailedErrors = False \<rparr>"

section \<open>Facts about the helpers\<close>

lemma value_or_simps [simp]: "value_or None d = d" "value_or (Some v) d = v"
  by (simp_all add: value_or_def)

lemma equals_ignore_case_length: "equals_ignore_case s1 s2 \<Longrightarrow> length s1 = length s2"
  unfolding equals_ignore_case_def by (drule arg_cong [where f = length]) simp

lemma equals_ignore_case_sym: "equals_ignore_case s1 s2 = equals_ignore_case s2 s1"
  by (auto simp: equals_ignore_case_def)

lemma equals_ignore_case_Nil [simp]:
  "equals_ignore_case [] s = (s = [])" "equals_ignore_case s [] = (s = [])"
  by (auto simp: equals_ignore_case_def)

lemma not_both_spellings:
  "equals_ignore_case s CS_ASPNETCORE_HOSTING_MODEL_INPROCESS \<Longrightarrow>
   \<not> equals_ignore_case s CS_ASPNETCORE_HOSTING_MODEL_OUTOFPROCESS"
  by (auto dest!: equals_ignore_case_length
      simp: CS_ASPNETCORE_HOSTING_MODEL_INPROCESS_def CS_ASPNETCORE_HOSTING_MODEL_OUTOFPROCESS_def)

lemma inprocess_not_empty:
  "equals_ignore_case s CS_ASPNETCORE_HOSTING_MODEL_INPROCESS \<Longrightarrow> s \<noteq> []"
  by (auto simp: CS_ASPNETCORE_HOSTING_MODEL_INPROCESS_def)

lemma map_subscript_fst: "fst (map_subscript m k) = value_or (m k) []"
  by (simp add: map_subscript_def split: option.splits)

lemma map_subscript_snd:
  "snd (map_subscript m k) k' = (if k' = k then Some (value_or (m k) []) else m k')"
  by (simp add: map_subscript_def split: option.splits)

lemma show_detailed_errors_eq:
  "show_detailed_errors env m \<longleftrightarrow>
     equals_ignore_case ''1'' (value_or (env ''ASPNETCORE_DETAILEDERRORS'') []) \<or>
     equals_ignore_case ''true'' (value_or (env ''ASPNETCORE_DETAILEDERRORS'') []) \<or>
     equals_ignore_case ''Development'' (value_or (env ''ASPNETCORE_ENVIRONMENT'') []) \<or>
     equals_ignore_case ''Development'' (value_or (env ''DOTNET_ENVIRONMENT'') []) \<or>
     equals_ignore_case ''1'' (value_or (m ''ASPNETCORE_DETAILEDERRORS'') []) \<or>
     equals_ignore_case ''true'' (value_or (m ''ASPNETCORE_DETAILEDERRORS'') []) \<or>
     equals_ignore_case ''Development'' (value_or (m ''ASPNETCORE_ENVIRONMENT'') []) \<or>
     equals_ignore_case ''Development'' (value_or (m ''DOTNET_ENVIRONMENT'') [])"
  by (auto simp: show_detailed_errors_def GetEnvironmentVariableValue_def Let_def
        split_beta map_subscript_fst map_subscript_snd)

lemma format_unknown_hosting_model:
  \<open>format unknown_hosting_model_format [s] =
     ''Unknown hosting model '' @ [CHR 0x27] @ s @ [CHR 0x27] @
     ''. Please specify either hostingModel='' @ [CHR 0x22] @ ''inprocess'' @ [CHR 0x22] @
     '' or hostingModel='' @ [CHR 0x22] @ ''outofprocess'' @ [CHR 0x22] @
     '' in the web.config file.''\<close>
  by (simp add: unknown_hosting_model_format_def)

section \<open>The constructor in closed form\<close>

lemma GetRequiredSection_Inr:
  "GetRequiredSection src name = Inr section \<longleftrightarrow> GetSection src name = Some section"
  by (simp add: GetRequiredSection_def split: option.splits)

lemma ctor_no_section:
  "GetSection src (CS_ASPNETCORE_SECTION K) = None \<Longrightarrow>
   ShimOptions_ShimOptions K env src =
     Inl (ConfigurationLoadException (CS_ASPNETCORE_SECTION K))"
  by (simp add: ShimOptions_ShimOptions_def GetRequiredSection_def)

lemma ctor_unknown:
  "GetSection src (CS_ASPNETCORE_SECTION K) = Some section \<Longrightarrow>
   h = value_or (GetString section (CS_ASPNETCORE_HOSTING_MODEL K)) [] \<Longrightarrow>
   \<not> valid_hosting_model h \<Longrightarrow>
   ShimOptions_ShimOptions K env src =
     Inl (ConfigurationLoadException (format unknown_hosting_model_format [h]))"
  by (simp add: ShimOptions_ShimOptions_def GetRequiredSection_def valid_hosting_model_def)

lemma ctor_valid:
  "GetSection src (CS_ASPNETCORE_SECTION K) = Some section \<Longrightarrow>
   valid_hosting_model (value_or (GetString section (CS_ASPNETCORE_HOSTING_MODEL K)) []) \<Longrightarrow>
   ShimOptions_ShimOptions K env src =
     (case GetString section (CS_ASPNETCORE_PROCESS_EXE_PATH K) of
        None \<Rightarrow> Inl (ConfigurationLoadException (CS_ASPNETCORE_PROCESS_EXE_PATH K))
      | Some p \<Rightarrow>
     (case GetBool section (CS_ASPNETCORE_STDOUT_LOG_ENABLED K) of
        None \<Rightarrow> Inl (ConfigurationLoadException (CS_ASPNETCORE_STDOUT_LOG_ENABLED K))
      | Some e \<Rightarrow>
     (case GetString section (CS_ASPNETCORE_STDOUT_LOG_FILE K) of
        None \<Rightarrow> Inl (ConfigurationLoadException (CS_ASPNETCORE_STDOUT_LOG_FILE K))
      | Some f \<Rightarrow>
     (case GetBool section (CS_ASPNETCORE_DISABLE_START_UP_ERROR_PAGE K) of
        None \<Rightarrow> Inl (ConfigurationLoadException (CS_ASPNETCORE_DISABLE_START_UP_ERROR_PAGE K))
      | Some d \<Rightarrow> Inr (resolved_object K env section p e f d)))))"
  by (auto simp: ShimOptions_ShimOptions_def GetRequiredSection_def GetRequiredString_def
        GetRequiredBool_def valid_hosting_model_def resolved_object_def initial_object_def
        find_element_def Let_def dest: not_both_spellings
        split: option.splits)

lemma ctor_InrD:
  assumes "ShimOptions_ShimOptions K env src = Inr opts"
  shows "\<exists>section p e f d.
           GetSection src (CS_ASPNETCORE_SECTION K) = Some section \<and>
           valid_hosting_model (value_or (GetString section (CS_ASPNETCORE_HOSTING_MODEL K)) []) \<and>
           GetString section (CS_ASPNETCORE_PROCESS_EXE_PATH K) = Some p \<and>
           GetBool section (CS_ASPNETCORE_STDOUT_LOG_ENABLED K) = Some e \<and>
           GetString section (CS_ASPNETCORE_STDOUT_LOG_FILE K) = Some f \<and>
           GetBool section (CS_ASPNETCORE_DISABLE_START_UP_ERROR_PAGE K) = Some d \<and>
           opts = resolved_object K env section p e f d"
proof (cases "GetSection src (CS_ASPNETCORE_SECTION K)")
  case None
  from ctor_no_section [OF this] assms show ?thesis by simp
next
  case (Some sec)
  let ?h = "value_or (GetString sec (CS_ASPNETCORE_HOSTING_MODEL K)) []"
  show ?thesis
  proof (cases "valid_hosting_model ?h")
    case False
    from ctor_unknown [OF Some refl False] assms show ?thesis by simp
  next
    case True
    from ctor_valid [OF Some True, of env] assms Some True show ?thesis
      by (auto split: option.splits)
  qed
qed

lemma ctor_InrI:
  assumes "GetSection src (CS_ASPNETCORE_SECTION K) = Some section"
    and "valid_hosting_model (value_or (GetString section (CS_ASPNETCORE_HOSTING_MODEL K)) [])"
    and "GetString section (CS_ASPNETCORE_PROCESS_EXE_PATH K) = Some p"
    and "GetBool section (CS_ASPNETCORE_STDOUT_LOG_ENABLED K) = Some e"
    and "GetString section (CS_ASPNETCORE_STDOUT_LOG_FILE K) = Some f"
    and "GetBool section (CS_ASPNETCORE_DISABLE_START_UP_ERROR_PAGE K) = Some d"
  shows "ShimOptions_ShimOptions K env src = Inr (resolved_object K env section p e f d)"
  using ctor_valid [OF assms(1,2), of env] assms(3-) by simp

lemma resolved_object_simps:
  "m_strProcessPath (resolved_object K env section p e f d) = p"
  "m_strArguments (resolved_object K env section p e f d) =
     value_or (GetString section (CS_ASPNETCORE_PROCESS_ARGUMENTS K))
       (CS_ASPNETCORE_PROCESS_ARGUMENTS_DEFAULT K)"
  "m_fShowDetailedErrors (resolved_object K env section p e f d) =
     show_detailed_errors env (GetMap section (CS_ASPNETCORE_ENVIRONMENT_VARIABLES K))"
  "m_hostingModel (resolved_object K env section p e f d) =
     (if value_or (GetString section (CS_ASPNETCORE_HOSTING_MODEL K)) [] = [] \<or>
         equals_ignore_case (value_or (GetString section (CS_ASPNETCORE_HOSTING_MODEL K)) [])
           CS_ASPNETCORE_HOSTING_MODEL_OUTOFPROCESS
      then HOSTING_OUT_PROCESS else HOSTING_IN_PROCESS)"
  "m_strHandlerVersion (resolved_object K env section p e f d) =
     (if value_or (GetString section (CS_ASPNETCORE_HOSTING_MODEL K)) [] = [] \<or>
         equals_ignore_case (value_or (GetString section (CS_ASPNETCORE_HOSTING_MODEL K)) [])
           CS_ASPNETCORE_HOSTING_MODEL_OUTOFPROCESS
      then value_or (GetKeyValuePairs section (CS_ASPNETCORE_HANDLER_SETTINGS K)
                       CS_ASPNETCORE_HANDLER_VERSION) []
      else [])"
  by (simp_all add: resolved_object_def Let_def)

lemma check_matches_value_or:
  "lit \<noteq> [] \<Longrightarrow> equals_ignore_case lit (value_or v []) = check_matches v lit"
  by (cases v) (auto simp: check_matches_def equals_ignore_case_sym)

lemma show_detailed_errors_spec:
  "show_detailed_errors env m = spec_showDetailedErrors env m"
  unfolding show_detailed_errors_eq spec_showDetailedErrors_def
  by (simp add: check_matches_value_or) blast

section \<open>The example configurations, evaluated\<close>

lemmas example_defs = example_macros_def source_of_def inprocess_section_def
  outofprocess_section_def unknown_section_def

lemmas eval_defs = GetRequiredSection_def GetRequiredString_def GetRequiredBool_def
  equals_ignore_case_def towlower_def CS_ASPNETCORE_HOSTING_MODEL_OUTOFPROCESS_def
  CS_ASPNETCORE_HOSTING_MODEL_INPROCESS_def CS_ASPNETCORE_HANDLER_VERSION_def

lemma inprocess_example: "ShimOptions_ShimOptions example_macros Map.empty (source_of inprocess_section) =
  Inr \<lparr> m_strArguments = ''<default>'', m_strProcessPath = ''dotnet'',
        m_hostingModel = HOSTING_IN_PROCESS, m_strHandlerVersion = [],
        m_struStdoutLogFile = ''log.txt'', m_fStdoutLogEnabled = True,
        m_fDisableStartupPage = False, m_fShowDetailedErrors = True \<rparr>"
  by (simp add: ShimOptions_ShimOptions_def example_defs eval_defs initial_object_def
      show_detailed_errors_def map_subscript_def find_element_def GetEnvironmentVariableValue_def)

lemma outofprocess_example: "ShimOptions_ShimOptions example_macros Map.empty (source_of outofprocess_section) =
  Inr \<lparr> m_strArguments = ''app.dll'', m_strProcessPath = ''w3wp'',
        m_hostingModel = HOSTING_OUT_PROCESS, m_strHandlerVersion = ''1.0'',
        m_struStdoutLogFile = ''log.txt'', m_fStdoutLogEnabled = False,
        m_fDisableStartupPage = True, m_fShowDetailedErrors = False \<rparr>"
  by (simp add: ShimOptions_ShimOptions_def example_defs eval_defs initial_object_def
      show_detailed_errors_def map_subscript_def find_element_def GetEnvironmentVariableValue_def)

lemma example_sections:
  "GetRequiredSection (source_of s) (CS_ASPNETCORE_SECTION example_macros) = Inr s"
  by (simp add: GetRequiredSection_def source_of_def example_macros_def)

section \<open>Further facts about the constructor\<close>

lemma valid_hosting_model_iff:
  "valid_hosting_model h \<longleftrightarrow>
     h = [] \<or> equals_ignore_case h ''outofprocess'' \<or> equals_ignore_case h ''inprocess''"
  by (simp add: valid_hosting_model_def CS_ASPNETCORE_HOSTING_MODEL_OUTOFPROCESS_def
      CS_ASPNETCORE_HOSTING_MODEL_INPROCESS_def)

lemma ctor_closed_form:
  "ShimOptions_ShimOptions K env src =
     (case GetSection src (CS_ASPNETCORE_SECTION K) of
        None \<Rightarrow> Inl (ConfigurationLoadException (CS_ASPNETCORE_SECTION K))
      | Some sec \<Rightarrow>
     (if \<not> valid_hosting_model (value_or (GetString sec (CS_ASPNETCORE_HOSTING_MODEL K)) [])
      then Inl (ConfigurationLoadException (format unknown_hosting_model_format
                  [value_or (GetString sec (CS_ASPNETCORE_HOSTING_MODEL K)) []]))
      else
     (case GetString sec (CS_ASPNETCORE_PROCESS_EXE_PATH K) of
        None \<Rightarrow> Inl (ConfigurationLoadException (CS_ASPNETCORE_PROCESS_EXE_PATH K))
      | Some p \<Rightarrow>
     (case GetBool sec (CS_ASPNETCORE_STDOUT_LOG_ENABLED K) of
        None \<Rightarrow> Inl (ConfigurationLoadException (CS_ASPNETCORE_STDOUT_LOG_ENABLED K))
      | Some e \<Rightarrow>
     (case GetString sec (CS_ASPNETCORE_STDOUT_LOG_FILE K) of
        None \<Rightarrow> Inl (ConfigurationLoadException (CS_ASPNETCORE_STDOUT_LOG_FILE K))
      | Some f \<Rightarrow>
     (case GetBool sec (CS_ASPNETCORE_DISABLE_START_UP_ERROR_PAGE K) of
        None \<Rightarrow> Inl (ConfigurationLoadException (CS_ASPNETCORE_DISABLE_START_UP_ERROR_PAGE K))
      | Some d \<Rightarrow> Inr (resolved_object K env sec p e f d)))))))"
proof (cases "GetSection src (CS_ASPNETCORE_SECTION K)")
  case None
  then show ?thesis by (simp add: ctor_no_section)
next
  case (Some sec)
  show ?thesis
  proof (cases "valid_hosting_model (value_or (GetString sec (CS_ASPNETCORE_HOSTING_MODEL K)) [])")
    case True
    from ctor_valid [OF Some True] Some True show ?thesis by simp
  next
    case False
    from ctor_unknown [OF Some refl False] Some False show ?thesis by simp
  qed
qed

lemma empty_example:
  "ShimOptions_ShimOptions example_macros Map.empty (source_of empty_section) =
     Inl (ConfigurationLoadException ''processPath'')"
  by (simp add: ShimOptions_ShimOptions_def example_defs empty_section_def eval_defs
      initial_object_def find_element_def)

lemma unknown_message:
  \<open>format unknown_hosting_model_format [''foo''] =
     ''Unknown hosting model 'foo'. Please specify either hostingModel="inprocess" or hostingModel="outofprocess" in the web.config file.''\<close>
  by (simp add: unknown_hosting_model_format_def)

lemma foo_invalid:
  "''foo'' \<noteq> []" "\<not> equals_ignore_case ''foo'' ''outofprocess''"
  "\<not> equals_ignore_case ''foo'' ''inprocess''"
  by (simp_all add: equals_ignore_case_def towlower_def)

lemma ctor_Inr_section:
  assumes "ShimOptions_ShimOptions K env src = Inr opts"
    and "GetRequiredSection src (CS_ASPNETCORE_SECTION K) = Inr section"
  shows "\<exists>p e f d.
           valid_hosting_model (value_or (GetString section (CS_ASPNETCORE_HOSTING_MODEL K)) []) \<and>
           GetString section (CS_ASPNETCORE_PROCESS_EXE_PATH K) = Some p \<and>
           GetBool section (CS_ASPNETCORE_STDOUT_LOG_ENABLED K) = Some e \<and>
           GetString section (CS_ASPNETCORE_STDOUT_LOG_FILE K) = Some f \<and>
           GetBool section (CS_ASPNETCORE_DISABLE_START_UP_ERROR_PAGE K) = Some d \<and>
           opts = resolved_object K env section p e f d"
  using ctor_InrD [OF assms(1)] assms(2) by (auto simp: GetRequiredSection_Inr)

lemma inprocess_result:
  "ShimOptions_ShimOptions example_macros Map.empty (source_of inprocess_section) =
     Inr inprocess_options"
  by (simp add: inprocess_example inprocess_options_def)

lemma outofprocess_result:
  "ShimOptions_ShimOptions example_macros Map.empty (source_of outofprocess_section) =
     Inr outofprocess_options"
  by (simp add: outofprocess_example outofprocess_options_def)

section \<open>Setting one source of the detailed-errors derivation\<close>

lemma show_detailed_errors_matching_env:
  "signal_matches name v \<Longrightarrow> show_detailed_errors (env(name \<mapsto> v)) m"
  unfolding show_detailed_errors_eq signal_matches_def
  by (auto simp: equals_ignore_case_sym [of v])

lemma show_detailed_errors_matching_entry:
  "signal_matches name v \<Longrightarrow> show_detailed_errors env (m(name \<mapsto> v))"
  unfolding show_detailed_errors_eq signal_matches_def
  by (auto simp: equals_ignore_case_sym [of v])

lemma resolved_object_env:
  "resolved_object K env' section p e f d =
     (resolved_object K env section p e f d)
       \<lparr>m_fShowDetailedErrors :=
          show_detailed_errors env' (GetMap section (CS_ASPNETCORE_ENVIRONMENT_VARIABLES K))\<rparr>"
  by (simp add: resolved_object_def Let_def)

lemma resolved_object_GetMap:
  "resolved_object K env (section\<lparr>GetMap := g\<rparr>) p e f d =
     (resolved_object K env section p e f d)
       \<lparr>m_fShowDetailedErrors :=
          show_detailed_errors env (g (CS_ASPNETCORE_ENVIRONMENT_VARIABLES K))\<rparr>"
  by (simp add: resolved_object_def Let_def)

lemma ctor_set_env:
  assumes "signal_matches name v"
  shows "ShimOptions_ShimOptions K (env(name \<mapsto> v)) src =
           (case ShimOptions_ShimOptions K env src of
              Inl e \<Rightarrow> Inl e
            | Inr opts \<Rightarrow> Inr (opts\<lparr>m_fShowDetailedErrors := True\<rparr>))"
  by (simp add: ctor_closed_form [of K _ src] resolved_object_env [of K "env(name \<mapsto> v)" _ _ _ _ _ env]
      show_detailed_errors_matching_env [OF assms] split: option.splits)

lemma ctor_set_declared_variable:
  assumes "signal_matches name v"
  shows "ShimOptions_ShimOptions K env (set_declared_variable K src name v) =
           (case ShimOptions_ShimOptions K env src of
              Inl e \<Rightarrow> Inl e
            | Inr opts \<Rightarrow> Inr (opts\<lparr>m_fShowDetailedErrors := True\<rparr>))"
proof (cases "GetSection src (CS_ASPNETCORE_SECTION K)")
  case None
  then show ?thesis
    by (simp add: set_declared_variable_def ctor_no_section)
next
  case (Some sec)
  then show ?thesis
    by (simp add: set_declared_variable_def ctor_closed_form [of K env] resolved_object_GetMap
        show_detailed_errors_matching_entry [OF assms] split: option.splits)
qed

lemma minimal_result:
  "ShimOptions_ShimOptions example_macros Map.empty (source_of minimal_section) =
     Inr minimal_options"
  by (simp add: ShimOptions_ShimOptions_def example_defs minimal_section_def
      minimal_options_def eval_defs initial_object_def show_detailed_errors_def
      map_subscript_def find_element_def GetEnvironmentVariableValue_def)

section \<open>The claims\<close>

text \<open>
  C1. For every configuration source, the resolved hosting model is OutOfProcess exactly
  when the hosting-model string read from the required section is empty or matches
  "outofprocess" up to case, and it is InProcess exactly when the string matches
  "inprocess" up to case.
\<close>

theorem hosting_model_resolved:
  assumes "GetRequiredSection configurationSource (CS_ASPNETCORE_SECTION K) = Inr section"
    and "hostingModel = value_or (GetString section (CS_ASPNETCORE_HOSTING_MODEL K)) []"
    and "ShimOptions_ShimOptions K env configurationSource = Inr opts"
  shows "(m_hostingModel opts = HOSTING_OUT_PROCESS \<longleftrightarrow>
            hostingModel = [] \<or> equals_ignore_case hostingModel ''outofprocess'') \<and>
         (m_hostingModel opts = HOSTING_IN_PROCESS \<longleftrightarrow>
            equals_ignore_case hostingModel ''inprocess'')"
proof -
  from ctor_InrD [OF assms(3)] assms(1,2) obtain p e f d
    where valid: "valid_hosting_model hostingModel"
      and opts: "opts = resolved_object K env section p e f d"
    by (auto simp: GetRequiredSection_Inr)
  have out: "m_hostingModel opts = HOSTING_OUT_PROCESS \<longleftrightarrow>
      hostingModel = [] \<or> equals_ignore_case hostingModel ''outofprocess''"
    using assms(2)
    by (simp add: opts resolved_object_simps CS_ASPNETCORE_HOSTING_MODEL_OUTOFPROCESS_def)
  have "m_hostingModel opts = HOSTING_IN_PROCESS \<longleftrightarrow>
      \<not> (hostingModel = [] \<or> equals_ignore_case hostingModel ''outofprocess'')"
    using assms(2)
    by (simp add: opts resolved_object_simps CS_ASPNETCORE_HOSTING_MODEL_OUTOFPROCESS_def)
  also have "\<dots> \<longleftrightarrow> equals_ignore_case hostingModel ''inprocess''"
    using valid not_both_spellings [of hostingModel] inprocess_not_empty [of hostingModel]
    by (auto simp: valid_hosting_model_def CS_ASPNETCORE_HOSTING_MODEL_OUTOFPROCESS_def
        CS_ASPNETCORE_HOSTING_MODEL_INPROCESS_def)
  finally show ?thesis using out by simp
qed

theorem hosting_model_resolved_witness:
  "GetRequiredSection (source_of inprocess_section) (CS_ASPNETCORE_SECTION example_macros) =
     Inr inprocess_section \<and>
   ''InProcess'' =
     value_or (GetString inprocess_section (CS_ASPNETCORE_HOSTING_MODEL example_macros)) [] \<and>
   ShimOptions_ShimOptions example_macros Map.empty (source_of inprocess_section) =
     Inr inprocess_options \<and>
   m_hostingModel inprocess_options \<noteq> HOSTING_OUT_PROCESS \<and>
   m_hostingModel inprocess_options = HOSTING_IN_PROCESS \<and>
   \<not> equals_ignore_case ''InProcess'' ''outofprocess'' \<and>
   equals_ignore_case ''InProcess'' ''inprocess''"
proof -
  have h1: "GetRequiredSection (source_of inprocess_section)
      (CS_ASPNETCORE_SECTION example_macros) = Inr inprocess_section"
    by (rule example_sections)
  have h2: "''InProcess'' =
      value_or (GetString inprocess_section (CS_ASPNETCORE_HOSTING_MODEL example_macros)) []"
    by (simp add: inprocess_section_def example_macros_def)
  have h3: "ShimOptions_ShimOptions example_macros Map.empty (source_of inprocess_section) =
      Inr inprocess_options"
    by (simp add: inprocess_example inprocess_options_def)
  from hosting_model_resolved [OF h1 h2 h3] h1 h2 h3 show ?thesis
    by (simp add: inprocess_options_def)
qed

text \<open>
  C2. For every configuration source whose hosting-model string is non-empty and matches
  neither "outofprocess" nor "inprocess" up to case, resolution fails with a
  configuration error whose message contains the offending value itself and names both
  valid spellings, "inprocess" and "outofprocess".
\<close>

theorem unknown_hosting_model_message:
  assumes "GetRequiredSection configurationSource (CS_ASPNETCORE_SECTION K) = Inr section"
    and "hostingModel = value_or (GetString section (CS_ASPNETCORE_HOSTING_MODEL K)) []"
    and "hostingModel \<noteq> []"
    and "\<not> equals_ignore_case hostingModel ''outofprocess''"
    and "\<not> equals_ignore_case hostingModel ''inprocess''"
  shows "\<exists>msg. ShimOptions_ShimOptions K env configurationSource =
             Inl (ConfigurationLoadException msg) \<and>
           sublist hostingModel msg \<and> sublist ''inprocess'' msg \<and>
           sublist ''outofprocess'' msg"
proof -
  let ?msg = "format unknown_hosting_model_format [hostingModel]"
  let ?a = "''Unknown hosting model '' @ [CHR 0x27]"
  let ?b = "[CHR 0x27] @ ''. Please specify either hostingModel='' @ [CHR 0x22]"
  let ?c = "[CHR 0x22] @ '' or hostingModel='' @ [CHR 0x22]"
  let ?d = "[CHR 0x22] @ '' in the web.config file.''"
  have "\<not> valid_hosting_model hostingModel"
    using assms(3-5) by (simp add: valid_hosting_model_iff)
  with assms(1,2) have res: "ShimOptions_ShimOptions K env configurationSource =
      Inl (ConfigurationLoadException ?msg)"
    by (simp add: GetRequiredSection_Inr ctor_unknown)
  have m1: "?msg = ?a @ hostingModel @ (?b @ ''inprocess'' @ ?c @ ''outofprocess'' @ ?d)"
    by (simp add: format_unknown_hosting_model)
  have m2: "?msg = (?a @ hostingModel @ ?b) @ ''inprocess'' @ (?c @ ''outofprocess'' @ ?d)"
    by (simp add: format_unknown_hosting_model)
  have m3: "?msg = (?a @ hostingModel @ ?b @ ''inprocess'' @ ?c) @ ''outofprocess'' @ ?d"
    by (simp add: format_unknown_hosting_model)
  have "sublist hostingModel ?msg" by (subst m1) (rule sublist_appendI)
  moreover have "sublist ''inprocess'' ?msg" by (subst m2) (rule sublist_appendI)
  moreover have "sublist ''outofprocess'' ?msg" by (subst m3) (rule sublist_appendI)
  ultimately show ?thesis using res by blast
qed

theorem unknown_hosting_model_message_witness:
  \<open>GetRequiredSection (source_of unknown_section) (CS_ASPNETCORE_SECTION example_macros) =
     Inr unknown_section \<and>
   ''foo'' = value_or (GetString unknown_section (CS_ASPNETCORE_HOSTING_MODEL example_macros)) [] \<and>
   ''foo'' \<noteq> [] \<and> \<not> equals_ignore_case ''foo'' ''outofprocess'' \<and>
   \<not> equals_ignore_case ''foo'' ''inprocess'' \<and>
   (\<exists>msg. ShimOptions_ShimOptions example_macros Map.empty (source_of unknown_section) =
            Inl (ConfigurationLoadException msg) \<and>
          sublist ''foo'' msg \<and> sublist ''inprocess'' msg \<and> sublist ''outofprocess'' msg)\<close>
proof -
  have h1: "GetRequiredSection (source_of unknown_section)
      (CS_ASPNETCORE_SECTION example_macros) = Inr unknown_section"
    by (rule example_sections)
  have h2: "''foo'' =
      value_or (GetString unknown_section (CS_ASPNETCORE_HOSTING_MODEL example_macros)) []"
    by (simp add: unknown_section_def example_macros_def)
  from unknown_hosting_model_message [OF h1 h2 foo_invalid, of Map.empty] h1 h2 foo_invalid
  show ?thesis by simp
qed

text \<open>
  C3. The resolved showDetailedErrors is true if and only if at least one of six checks
  matches: the process environment variable or the configuration-declared entry named
  ASPNETCORE_DETAILEDERRORS equals "1" or "true" up to case, or the variable or entry
  named ASPNETCORE_ENVIRONMENT equals "Development" up to case, or the variable or entry
  named DOTNET_ENVIRONMENT equals "Development" up to case. It is false only when none
  of the six matches.
\<close>

theorem show_detailed_errors_six_checks:
  assumes "GetRequiredSection configurationSource (CS_ASPNETCORE_SECTION K) = Inr section"
    and "ShimOptions_ShimOptions K env configurationSource = Inr opts"
  shows "m_fShowDetailedErrors opts \<longleftrightarrow>
           spec_showDetailedErrors env (GetMap section (CS_ASPNETCORE_ENVIRONMENT_VARIABLES K))"
  using ctor_Inr_section [OF assms(2,1)]
  by (auto simp: resolved_object_simps show_detailed_errors_spec)

theorem show_detailed_errors_six_checks_witness:
  "GetRequiredSection (source_of inprocess_section) (CS_ASPNETCORE_SECTION example_macros) =
     Inr inprocess_section \<and>
   ShimOptions_ShimOptions example_macros Map.empty (source_of inprocess_section) =
     Inr inprocess_options \<and>
   m_fShowDetailedErrors inprocess_options \<and>
   check_matches (GetMap inprocess_section (CS_ASPNETCORE_ENVIRONMENT_VARIABLES example_macros)
                    ''ASPNETCORE_ENVIRONMENT'') ''Development'' \<and>
   spec_showDetailedErrors Map.empty
     (GetMap inprocess_section (CS_ASPNETCORE_ENVIRONMENT_VARIABLES example_macros))"
proof -
  have h1: "GetRequiredSection (source_of inprocess_section)
      (CS_ASPNETCORE_SECTION example_macros) = Inr inprocess_section"
    by (rule example_sections)
  have h2: "check_matches
      (GetMap inprocess_section (CS_ASPNETCORE_ENVIRONMENT_VARIABLES example_macros)
         ''ASPNETCORE_ENVIRONMENT'') ''Development''"
    by (simp add: check_matches_def inprocess_section_def example_macros_def
        equals_ignore_case_def)
  from show_detailed_errors_six_checks [OF h1 inprocess_result] h1 h2 inprocess_result
  show ?thesis by (simp add: inprocess_options_def)
qed

text \<open>
  C4. Where the resolved hosting model is InProcess, the resolved handlerVersion is the
  empty string whatever the handler settings hold. Where it is OutOfProcess,
  handlerVersion is the value of the key literally named "handlerVersion" in the handler
  settings when the key is present, and the empty string (not an error) when it is absent.
\<close>

theorem handler_version_resolved:
  assumes "GetRequiredSection configurationSource (CS_ASPNETCORE_SECTION K) = Inr section"
    and "hostingModel = value_or (GetString section (CS_ASPNETCORE_HOSTING_MODEL K)) []"
  shows "(\<forall>opts. ShimOptions_ShimOptions K env configurationSource = Inr opts \<longrightarrow>
            (m_hostingModel opts = HOSTING_IN_PROCESS \<longrightarrow> m_strHandlerVersion opts = []) \<and>
            (m_hostingModel opts = HOSTING_OUT_PROCESS \<longrightarrow>
               m_strHandlerVersion opts =
                 (case GetKeyValuePairs section (CS_ASPNETCORE_HANDLER_SETTINGS K)
                         ''handlerVersion'' of
                    None \<Rightarrow> []
                  | Some v \<Rightarrow> v))) \<and>
         (GetString section (CS_ASPNETCORE_PROCESS_EXE_PATH K) \<noteq> None \<and>
          GetBool section (CS_ASPNETCORE_STDOUT_LOG_ENABLED K) \<noteq> None \<and>
          GetString section (CS_ASPNETCORE_STDOUT_LOG_FILE K) \<noteq> None \<and>
          GetBool section (CS_ASPNETCORE_DISABLE_START_UP_ERROR_PAGE K) \<noteq> None \<longrightarrow>
            (equals_ignore_case hostingModel ''inprocess'' \<longrightarrow>
               (\<exists>opts. ShimOptions_ShimOptions K env configurationSource = Inr opts \<and>
                  m_hostingModel opts = HOSTING_IN_PROCESS \<and> m_strHandlerVersion opts = [])) \<and>
            (hostingModel = [] \<or> equals_ignore_case hostingModel ''outofprocess'' \<longrightarrow>
               (\<exists>opts. ShimOptions_ShimOptions K env configurationSource = Inr opts \<and>
                  m_hostingModel opts = HOSTING_OUT_PROCESS \<and>
                  m_strHandlerVersion opts =
                    (case GetKeyValuePairs section (CS_ASPNETCORE_HANDLER_SETTINGS K)
                            ''handlerVersion'' of
                       None \<Rightarrow> []
                     | Some v \<Rightarrow> v))))"
proof (intro conjI allI impI)
  fix opts
  assume ok: "ShimOptions_ShimOptions K env configurationSource = Inr opts"
  from ctor_Inr_section [OF ok assms(1)]
  show "m_hostingModel opts = HOSTING_IN_PROCESS \<Longrightarrow> m_strHandlerVersion opts = []"
    by (auto simp: resolved_object_simps split: if_splits)
  from ctor_Inr_section [OF ok assms(1)]
  show "m_hostingModel opts = HOSTING_OUT_PROCESS \<Longrightarrow>
      m_strHandlerVersion opts =
        (case GetKeyValuePairs section (CS_ASPNETCORE_HANDLER_SETTINGS K) ''handlerVersion'' of
           None \<Rightarrow> []
         | Some v \<Rightarrow> v)"
    by (auto simp: resolved_object_simps CS_ASPNETCORE_HANDLER_VERSION_def value_or_def
        split: option.splits if_splits)
next
  assume "GetString section (CS_ASPNETCORE_PROCESS_EXE_PATH K) \<noteq> None \<and>
    GetBool section (CS_ASPNETCORE_STDOUT_LOG_ENABLED K) \<noteq> None \<and>
    GetString section (CS_ASPNETCORE_STDOUT_LOG_FILE K) \<noteq> None \<and>
    GetBool section (CS_ASPNETCORE_DISABLE_START_UP_ERROR_PAGE K) \<noteq> None"
  then obtain p e f d
    where req: "GetString section (CS_ASPNETCORE_PROCESS_EXE_PATH K) = Some p"
      "GetBool section (CS_ASPNETCORE_STDOUT_LOG_ENABLED K) = Some e"
      "GetString section (CS_ASPNETCORE_STDOUT_LOG_FILE K) = Some f"
      "GetBool section (CS_ASPNETCORE_DISABLE_START_UP_ERROR_PAGE K) = Some d"
    by auto
  have sec: "GetSection configurationSource (CS_ASPNETCORE_SECTION K) = Some section"
    using assms(1) by (simp add: GetRequiredSection_Inr)
  have run: "ShimOptions_ShimOptions K env configurationSource =
      Inr (resolved_object K env section p e f d)" if "valid_hosting_model hostingModel"
    using that ctor_InrI [OF sec _ req] assms(2) by simp
  {
    assume inproc: "equals_ignore_case hostingModel ''inprocess''"
    then have "valid_hosting_model hostingModel"
      by (simp add: valid_hosting_model_iff)
    moreover have "\<not> (hostingModel = [] \<or>
        equals_ignore_case hostingModel CS_ASPNETCORE_HOSTING_MODEL_OUTOFPROCESS)"
      using inproc not_both_spellings [of hostingModel] inprocess_not_empty [of hostingModel]
      by (simp add: CS_ASPNETCORE_HOSTING_MODEL_INPROCESS_def)
    ultimately show "\<exists>opts. ShimOptions_ShimOptions K env configurationSource = Inr opts \<and>
        m_hostingModel opts = HOSTING_IN_PROCESS \<and> m_strHandlerVersion opts = []"
      using run assms(2) by (simp add: resolved_object_simps)
  }
  {
    assume out: "hostingModel = [] \<or> equals_ignore_case hostingModel ''outofprocess''"
    then have "valid_hosting_model hostingModel"
      by (auto simp: valid_hosting_model_iff)
    with out show "\<exists>opts. ShimOptions_ShimOptions K env configurationSource = Inr opts \<and>
        m_hostingModel opts = HOSTING_OUT_PROCESS \<and>
        m_strHandlerVersion opts =
          (case GetKeyValuePairs section (CS_ASPNETCORE_HANDLER_SETTINGS K) ''handlerVersion'' of
             None \<Rightarrow> []
           | Some v \<Rightarrow> v)"
      using run assms(2)
      by (auto simp: resolved_object_simps CS_ASPNETCORE_HOSTING_MODEL_OUTOFPROCESS_def
          CS_ASPNETCORE_HANDLER_VERSION_def value_or_def split: option.splits)
  }
qed

theorem handler_version_resolved_witness:
  "(\<exists>opts. ShimOptions_ShimOptions example_macros Map.empty (source_of inprocess_section) =
            Inr opts \<and>
          GetKeyValuePairs inprocess_section (CS_ASPNETCORE_HANDLER_SETTINGS example_macros)
            ''handlerVersion'' = Some ''2.1'' \<and>
          m_hostingModel opts = HOSTING_IN_PROCESS \<and> m_strHandlerVersion opts = []) \<and>
   (\<exists>opts. ShimOptions_ShimOptions example_macros Map.empty (source_of outofprocess_section) =
            Inr opts \<and>
          m_hostingModel opts = HOSTING_OUT_PROCESS \<and> m_strHandlerVersion opts = ''1.0'') \<and>
   (\<exists>opts. ShimOptions_ShimOptions example_macros Map.empty (source_of minimal_section) =
            Inr opts \<and>
          GetKeyValuePairs minimal_section (CS_ASPNETCORE_HANDLER_SETTINGS example_macros)
            ''handlerVersion'' = None \<and>
          m_hostingModel opts = HOSTING_OUT_PROCESS \<and> m_strHandlerVersion opts = [])"
proof -
  have h1: "''InProcess'' =
      value_or (GetString inprocess_section (CS_ASPNETCORE_HOSTING_MODEL example_macros)) []"
    by (simp add: inprocess_section_def example_macros_def)
  have h2: "[] =
      value_or (GetString outofprocess_section (CS_ASPNETCORE_HOSTING_MODEL example_macros)) []"
    by (simp add: outofprocess_section_def example_macros_def)
  have h3: "[] =
      value_or (GetString minimal_section (CS_ASPNETCORE_HOSTING_MODEL example_macros)) []"
    by (simp add: minimal_section_def example_macros_def)
  have m: "equals_ignore_case ''InProcess'' ''inprocess''"
    by (simp add: equals_ignore_case_def towlower_def)
  from handler_version_resolved [OF example_sections h1, of Map.empty]
    handler_version_resolved [OF example_sections h2, of Map.empty]
    handler_version_resolved [OF example_sections h3, of Map.empty] m
  show ?thesis
    by (simp add: inprocess_section_def outofprocess_section_def minimal_section_def
        example_macros_def)
qed

text \<open>
  C5. For every configuration source with a valid hosting model, resolution fails with a
  configuration error when processPath is absent, and when processPath is present the
  resolved processPath is the configured string verbatim.
\<close>

theorem process_path_required:
  assumes "GetRequiredSection configurationSource (CS_ASPNETCORE_SECTION K) = Inr section"
    and "hostingModel = value_or (GetString section (CS_ASPNETCORE_HOSTING_MODEL K)) []"
    and "hostingModel = [] \<or> equals_ignore_case hostingModel ''outofprocess'' \<or>
         equals_ignore_case hostingModel ''inprocess''"
  shows "(GetString section (CS_ASPNETCORE_PROCESS_EXE_PATH K) = None \<longrightarrow>
            (\<exists>msg. ShimOptions_ShimOptions K env configurationSource =
                     Inl (ConfigurationLoadException msg))) \<and>
         (\<forall>p opts. GetString section (CS_ASPNETCORE_PROCESS_EXE_PATH K) = Some p \<and>
              ShimOptions_ShimOptions K env configurationSource = Inr opts \<longrightarrow>
            m_strProcessPath opts = p)"
proof (intro conjI impI allI)
  assume "GetString section (CS_ASPNETCORE_PROCESS_EXE_PATH K) = None"
  with assms show "\<exists>msg. ShimOptions_ShimOptions K env configurationSource =
      Inl (ConfigurationLoadException msg)"
    by (simp add: GetRequiredSection_Inr ctor_closed_form valid_hosting_model_iff)
next
  fix p opts
  assume "GetString section (CS_ASPNETCORE_PROCESS_EXE_PATH K) = Some p \<and>
    ShimOptions_ShimOptions K env configurationSource = Inr opts"
  with ctor_Inr_section [OF _ assms(1), of env opts] show "m_strProcessPath opts = p"
    by (auto simp: resolved_object_simps)
qed

theorem process_path_required_witness:
  "GetString empty_section (CS_ASPNETCORE_PROCESS_EXE_PATH example_macros) = None \<and>
   (\<exists>msg. ShimOptions_ShimOptions example_macros Map.empty (source_of empty_section) =
           Inl (ConfigurationLoadException msg)) \<and>
   GetString inprocess_section (CS_ASPNETCORE_PROCESS_EXE_PATH example_macros) =
     Some ''dotnet'' \<and>
   ShimOptions_ShimOptions example_macros Map.empty (source_of inprocess_section) =
     Inr inprocess_options \<and>
   m_strProcessPath inprocess_options = ''dotnet''"
proof -
  have a: "[] = value_or (GetString empty_section (CS_ASPNETCORE_HOSTING_MODEL example_macros)) []"
    by (simp add: empty_section_def)
  have b: "GetString empty_section (CS_ASPNETCORE_PROCESS_EXE_PATH example_macros) = None"
    by (simp add: empty_section_def)
  have c: "''InProcess'' =
      value_or (GetString inprocess_section (CS_ASPNETCORE_HOSTING_MODEL example_macros)) []"
    by (simp add: inprocess_section_def example_macros_def)
  have d: "''InProcess'' = [] \<or> equals_ignore_case ''InProcess'' ''outofprocess'' \<or>
      equals_ignore_case ''InProcess'' ''inprocess''"
    by (simp add: equals_ignore_case_def towlower_def)
  have e: "GetString inprocess_section (CS_ASPNETCORE_PROCESS_EXE_PATH example_macros) =
      Some ''dotnet''"
    by (simp add: inprocess_section_def example_macros_def)
  from process_path_required [OF example_sections a, of Map.empty]
    process_path_required [OF example_sections c d, of Map.empty] b e inprocess_result
  show ?thesis by simp
qed

text \<open>
  C6. When the arguments key is absent the resolved arguments field is the fixed built-in
  default argument string, and when the key is present it is the configured string
  verbatim.
\<close>

theorem arguments_default:
  assumes "GetRequiredSection configurationSource (CS_ASPNETCORE_SECTION K) = Inr section"
    and "hostingModel = value_or (GetString section (CS_ASPNETCORE_HOSTING_MODEL K)) []"
  shows "(\<forall>opts. ShimOptions_ShimOptions K env configurationSource = Inr opts \<longrightarrow>
            m_strArguments opts =
              (case GetString section (CS_ASPNETCORE_PROCESS_ARGUMENTS K) of
                 None \<Rightarrow> CS_ASPNETCORE_PROCESS_ARGUMENTS_DEFAULT K
               | Some a \<Rightarrow> a)) \<and>
         ((hostingModel = [] \<or> equals_ignore_case hostingModel ''outofprocess'' \<or>
           equals_ignore_case hostingModel ''inprocess'') \<and>
          GetString section (CS_ASPNETCORE_PROCESS_EXE_PATH K) \<noteq> None \<and>
          GetBool section (CS_ASPNETCORE_STDOUT_LOG_ENABLED K) \<noteq> None \<and>
          GetString section (CS_ASPNETCORE_STDOUT_LOG_FILE K) \<noteq> None \<and>
          GetBool section (CS_ASPNETCORE_DISABLE_START_UP_ERROR_PAGE K) \<noteq> None \<longrightarrow>
            (\<exists>opts. ShimOptions_ShimOptions K env configurationSource = Inr opts \<and>
               m_strArguments opts =
                 (case GetString section (CS_ASPNETCORE_PROCESS_ARGUMENTS K) of
                    None \<Rightarrow> CS_ASPNETCORE_PROCESS_ARGUMENTS_DEFAULT K
                  | Some a \<Rightarrow> a)))"
proof (intro conjI allI impI)
  fix opts
  assume ok: "ShimOptions_ShimOptions K env configurationSource = Inr opts"
  from ctor_Inr_section [OF ok assms(1)]
  show "m_strArguments opts =
      (case GetString section (CS_ASPNETCORE_PROCESS_ARGUMENTS K) of
         None \<Rightarrow> CS_ASPNETCORE_PROCESS_ARGUMENTS_DEFAULT K
       | Some a \<Rightarrow> a)"
    by (auto simp: resolved_object_simps value_or_def)
next
  assume h: "(hostingModel = [] \<or> equals_ignore_case hostingModel ''outofprocess'' \<or>
      equals_ignore_case hostingModel ''inprocess'') \<and>
    GetString section (CS_ASPNETCORE_PROCESS_EXE_PATH K) \<noteq> None \<and>
    GetBool section (CS_ASPNETCORE_STDOUT_LOG_ENABLED K) \<noteq> None \<and>
    GetString section (CS_ASPNETCORE_STDOUT_LOG_FILE K) \<noteq> None \<and>
    GetBool section (CS_ASPNETCORE_DISABLE_START_UP_ERROR_PAGE K) \<noteq> None"
  then obtain p e f d
    where req: "GetString section (CS_ASPNETCORE_PROCESS_EXE_PATH K) = Some p"
      "GetBool section (CS_ASPNETCORE_STDOUT_LOG_ENABLED K) = Some e"
      "GetString section (CS_ASPNETCORE_STDOUT_LOG_FILE K) = Some f"
      "GetBool section (CS_ASPNETCORE_DISABLE_START_UP_ERROR_PAGE K) = Some d"
    by auto
  have sec: "GetSection configurationSource (CS_ASPNETCORE_SECTION K) = Some section"
    using assms(1) by (simp add: GetRequiredSection_Inr)
  have valid: "valid_hosting_model (value_or (GetString section (CS_ASPNETCORE_HOSTING_MODEL K)) [])"
    using h assms(2) by (simp add: valid_hosting_model_iff)
  have "ShimOptions_ShimOptions K env configurationSource =
      Inr (resolved_object K env section p e f d)"
    by (rule ctor_InrI [OF sec valid req])
  then show "\<exists>opts. ShimOptions_ShimOptions K env configurationSource = Inr opts \<and>
      m_strArguments opts =
        (case GetString section (CS_ASPNETCORE_PROCESS_ARGUMENTS K) of
           None \<Rightarrow> CS_ASPNETCORE_PROCESS_ARGUMENTS_DEFAULT K
         | Some a \<Rightarrow> a)"
    by (simp add: resolved_object_simps value_or_def)
qed

theorem arguments_default_witness:
  "GetString inprocess_section (CS_ASPNETCORE_PROCESS_ARGUMENTS example_macros) = None \<and>
   (\<exists>opts. ShimOptions_ShimOptions example_macros Map.empty (source_of inprocess_section) =
            Inr opts \<and>
          m_strArguments opts = CS_ASPNETCORE_PROCESS_ARGUMENTS_DEFAULT example_macros) \<and>
   GetString outofprocess_section (CS_ASPNETCORE_PROCESS_ARGUMENTS example_macros) =
     Some ''app.dll'' \<and>
   (\<exists>opts. ShimOptions_ShimOptions example_macros Map.empty (source_of outofprocess_section) =
            Inr opts \<and>
          m_strArguments opts = ''app.dll'')"
proof -
  have h1: "''InProcess'' =
      value_or (GetString inprocess_section (CS_ASPNETCORE_HOSTING_MODEL example_macros)) []"
    by (simp add: inprocess_section_def example_macros_def)
  have h2: "[] =
      value_or (GetString outofprocess_section (CS_ASPNETCORE_HOSTING_MODEL example_macros)) []"
    by (simp add: outofprocess_section_def example_macros_def)
  have m: "equals_ignore_case ''InProcess'' ''inprocess''"
    by (simp add: equals_ignore_case_def towlower_def)
  from arguments_default [OF example_sections h1, of Map.empty]
    arguments_default [OF example_sections h2, of Map.empty] m
  show ?thesis
    by (simp add: inprocess_section_def outofprocess_section_def example_macros_def)
qed

text \<open>
  C7. Resolution can fail only at step 1 (hosting model), step 3 (processPath) and step 4
  (stdoutLogEnabled, stdoutLogFile, disableStartupErrorPage): for every input where
  those required fields are present and valid, step 2 (handler version) and step 5
  (detailed errors) never raise an error. An absent handlerVersion key resolves to the
  empty string, and environment values that are absent or do not match contribute false.
\<close>

theorem failure_only_at_required_steps:
  assumes "GetRequiredSection configurationSource (CS_ASPNETCORE_SECTION K) = Inr section"
    and "hostingModel = value_or (GetString section (CS_ASPNETCORE_HOSTING_MODEL K)) []"
    and "hostingModel = [] \<or> equals_ignore_case hostingModel ''outofprocess'' \<or>
         equals_ignore_case hostingModel ''inprocess''"
    and "GetString section (CS_ASPNETCORE_PROCESS_EXE_PATH K) \<noteq> None"
    and "GetBool section (CS_ASPNETCORE_STDOUT_LOG_ENABLED K) \<noteq> None"
    and "GetString section (CS_ASPNETCORE_STDOUT_LOG_FILE K) \<noteq> None"
    and "GetBool section (CS_ASPNETCORE_DISABLE_START_UP_ERROR_PAGE K) \<noteq> None"
  shows "\<exists>opts. ShimOptions_ShimOptions K env configurationSource = Inr opts \<and>
           (m_hostingModel opts = HOSTING_OUT_PROCESS \<and>
            GetKeyValuePairs section (CS_ASPNETCORE_HANDLER_SETTINGS K) ''handlerVersion'' = None
              \<longrightarrow> m_strHandlerVersion opts = []) \<and>
           (\<not> spec_showDetailedErrors env
                 (GetMap section (CS_ASPNETCORE_ENVIRONMENT_VARIABLES K))
              \<longrightarrow> \<not> m_fShowDetailedErrors opts)"
proof -
  from assms(4-7) obtain p e f d
    where req: "GetString section (CS_ASPNETCORE_PROCESS_EXE_PATH K) = Some p"
      "GetBool section (CS_ASPNETCORE_STDOUT_LOG_ENABLED K) = Some e"
      "GetString section (CS_ASPNETCORE_STDOUT_LOG_FILE K) = Some f"
      "GetBool section (CS_ASPNETCORE_DISABLE_START_UP_ERROR_PAGE K) = Some d"
    by auto
  have sec: "GetSection configurationSource (CS_ASPNETCORE_SECTION K) = Some section"
    using assms(1) by (simp add: GetRequiredSection_Inr)
  have valid: "valid_hosting_model (value_or (GetString section (CS_ASPNETCORE_HOSTING_MODEL K)) [])"
    using assms(2,3) by (simp add: valid_hosting_model_iff)
  have "ShimOptions_ShimOptions K env configurationSource =
      Inr (resolved_object K env section p e f d)"
    by (rule ctor_InrI [OF sec valid req])
  then show ?thesis
    by (simp add: resolved_object_simps show_detailed_errors_spec
        CS_ASPNETCORE_HANDLER_VERSION_def)
qed

theorem failure_only_at_required_steps_witness:
  "GetRequiredSection (source_of minimal_section) (CS_ASPNETCORE_SECTION example_macros) =
     Inr minimal_section \<and>
   value_or (GetString minimal_section (CS_ASPNETCORE_HOSTING_MODEL example_macros)) [] = [] \<and>
   GetKeyValuePairs minimal_section (CS_ASPNETCORE_HANDLER_SETTINGS example_macros)
     ''handlerVersion'' = None \<and>
   \<not> spec_showDetailedErrors Map.empty
       (GetMap minimal_section (CS_ASPNETCORE_ENVIRONMENT_VARIABLES example_macros)) \<and>
   (\<exists>opts. ShimOptions_ShimOptions example_macros Map.empty (source_of minimal_section) =
            Inr opts \<and>
          m_hostingModel opts = HOSTING_OUT_PROCESS \<and> m_strHandlerVersion opts = [] \<and>
          \<not> m_fShowDetailedErrors opts)"
proof -
  have h2: "[] = value_or (GetString minimal_section (CS_ASPNETCORE_HOSTING_MODEL example_macros)) []"
    by (simp add: minimal_section_def example_macros_def)
  have h3: "([]::wstring) = [] \<or> equals_ignore_case [] ''outofprocess'' \<or>
      equals_ignore_case [] ''inprocess''"
    by simp
  have h4: "GetString minimal_section (CS_ASPNETCORE_PROCESS_EXE_PATH example_macros) \<noteq> None"
    and h5: "GetBool minimal_section (CS_ASPNETCORE_STDOUT_LOG_ENABLED example_macros) \<noteq> None"
    and h6: "GetString minimal_section (CS_ASPNETCORE_STDOUT_LOG_FILE example_macros) \<noteq> None"
    and h7: "GetBool minimal_section (CS_ASPNETCORE_DISABLE_START_UP_ERROR_PAGE example_macros)
        \<noteq> None"
    by (simp_all add: minimal_section_def example_macros_def)
  have a: "GetKeyValuePairs minimal_section (CS_ASPNETCORE_HANDLER_SETTINGS example_macros)
      ''handlerVersion'' = None"
    by (simp add: minimal_section_def)
  have b: "\<not> spec_showDetailedErrors Map.empty
      (GetMap minimal_section (CS_ASPNETCORE_ENVIRONMENT_VARIABLES example_macros))"
    by (simp add: minimal_section_def spec_showDetailedErrors_def check_matches_def)
  from failure_only_at_required_steps [OF example_sections h2 h3 h4 h5 h6 h7, of Map.empty]
    a b h2 minimal_result
  show ?thesis by (simp add: example_sections minimal_options_def)
qed

text \<open>
  C8. Resolution is atomic: for every input it either fails with a configuration error,
  and then there is no options object at all, or it returns a fully resolved options
  object, whose hostingModel in particular is never HOSTING_UNKNOWN and whose required
  members hold the configured values.
\<close>

theorem resolution_atomic:
  "(\<exists>msg. ShimOptions_ShimOptions K env configurationSource =
            Inl (ConfigurationLoadException msg)) \<or>
   (\<exists>opts section.
      ShimOptions_ShimOptions K env configurationSource = Inr opts \<and>
      GetRequiredSection configurationSource (CS_ASPNETCORE_SECTION K) = Inr section \<and>
      m_hostingModel opts \<noteq> HOSTING_UNKNOWN \<and>
      GetString section (CS_ASPNETCORE_PROCESS_EXE_PATH K) = Some (m_strProcessPath opts) \<and>
      GetBool section (CS_ASPNETCORE_STDOUT_LOG_ENABLED K) = Some (m_fStdoutLogEnabled opts) \<and>
      GetString section (CS_ASPNETCORE_STDOUT_LOG_FILE K) = Some (m_struStdoutLogFile opts) \<and>
      GetBool section (CS_ASPNETCORE_DISABLE_START_UP_ERROR_PAGE K) =
        Some (m_fDisableStartupPage opts))"
proof (cases "ShimOptions_ShimOptions K env configurationSource")
  case (Inl e)
  then show ?thesis by (cases e) simp
next
  case (Inr opts)
  from ctor_InrD [OF Inr] obtain sec p e f d
    where "GetSection configurationSource (CS_ASPNETCORE_SECTION K) = Some sec"
      and "GetString sec (CS_ASPNETCORE_PROCESS_EXE_PATH K) = Some p"
      and "GetBool sec (CS_ASPNETCORE_STDOUT_LOG_ENABLED K) = Some e"
      and "GetString sec (CS_ASPNETCORE_STDOUT_LOG_FILE K) = Some f"
      and "GetBool sec (CS_ASPNETCORE_DISABLE_START_UP_ERROR_PAGE K) = Some d"
      and "opts = resolved_object K env sec p e f d"
    by blast
  then have "GetRequiredSection configurationSource (CS_ASPNETCORE_SECTION K) = Inr sec \<and>
      m_hostingModel opts \<noteq> HOSTING_UNKNOWN \<and>
      GetString sec (CS_ASPNETCORE_PROCESS_EXE_PATH K) = Some (m_strProcessPath opts) \<and>
      GetBool sec (CS_ASPNETCORE_STDOUT_LOG_ENABLED K) = Some (m_fStdoutLogEnabled opts) \<and>
      GetString sec (CS_ASPNETCORE_STDOUT_LOG_FILE K) = Some (m_struStdoutLogFile opts) \<and>
      GetBool sec (CS_ASPNETCORE_DISABLE_START_UP_ERROR_PAGE K) =
        Some (m_fDisableStartupPage opts)"
    by (simp add: GetRequiredSection_Inr resolved_object_def Let_def)
  with Inr show ?thesis by blast
qed

theorem resolution_atomic_witness:
  "ShimOptions_ShimOptions example_macros Map.empty (source_of inprocess_section) =
     Inr inprocess_options \<and>
   m_hostingModel inprocess_options \<noteq> HOSTING_UNKNOWN \<and>
   GetString inprocess_section (CS_ASPNETCORE_PROCESS_EXE_PATH example_macros) =
     Some (m_strProcessPath inprocess_options) \<and>
   (\<exists>msg. ShimOptions_ShimOptions example_macros Map.empty (source_of empty_section) =
           Inl (ConfigurationLoadException msg))"
  using resolution_atomic [of example_macros Map.empty "source_of inprocess_section"]
    resolution_atomic [of example_macros Map.empty "source_of empty_section"]
  by (auto simp: inprocess_result empty_example example_sections)

text \<open>
  C9. The detailed-errors derivation is monotone: when two inputs differ only in that one
  of the six sources (a process environment variable or a configuration-declared entry)
  is set to a matching value, the resolved showDetailedErrors never changes from true to
  false, and the change never makes resolution fail: a failure stays the same failure and
  a success stays a success.
\<close>

theorem detailed_errors_monotone:
  assumes "signal_matches name v"
    and "(env' = env(name \<mapsto> v) \<and> source' = source) \<or>
         (env' = env \<and> source' = set_declared_variable K source name v)"
  shows "(\<forall>e. ShimOptions_ShimOptions K env source = Inl e \<longrightarrow>
              ShimOptions_ShimOptions K env' source' = Inl e) \<and>
         (\<forall>opts. ShimOptions_ShimOptions K env source = Inr opts \<longrightarrow>
              (\<exists>opts'. ShimOptions_ShimOptions K env' source' = Inr opts' \<and>
                 (m_fShowDetailedErrors opts \<longrightarrow> m_fShowDetailedErrors opts')))"
  using assms(2) ctor_set_env [OF assms(1), of K env source]
    ctor_set_declared_variable [OF assms(1), of K env source]
  by auto

theorem detailed_errors_monotone_witness:
  "signal_matches ''ASPNETCORE_DETAILEDERRORS'' ''TRUE'' \<and>
   ShimOptions_ShimOptions example_macros Map.empty (source_of inprocess_section) =
     Inr inprocess_options \<and>
   m_fShowDetailedErrors inprocess_options \<and>
   (\<exists>opts'. ShimOptions_ShimOptions example_macros [''ASPNETCORE_DETAILEDERRORS'' \<mapsto> ''TRUE'']
              (source_of inprocess_section) = Inr opts' \<and>
            m_fShowDetailedErrors opts') \<and>
   signal_matches ''DOTNET_ENVIRONMENT'' ''development'' \<and>
   ShimOptions_ShimOptions example_macros Map.empty (source_of empty_section) =
     Inl (ConfigurationLoadException ''processPath'') \<and>
   ShimOptions_ShimOptions example_macros Map.empty
     (set_declared_variable example_macros (source_of empty_section)
        ''DOTNET_ENVIRONMENT'' ''development'') =
     Inl (ConfigurationLoadException ''processPath'')"
proof -
  have m1: "signal_matches ''ASPNETCORE_DETAILEDERRORS'' ''TRUE''"
    by (simp add: signal_matches_def equals_ignore_case_def towlower_def)
  have m2: "signal_matches ''DOTNET_ENVIRONMENT'' ''development''"
    by (simp add: signal_matches_def equals_ignore_case_def towlower_def)
  have a: "m_fShowDetailedErrors inprocess_options"
    by (simp add: inprocess_options_def)
  from detailed_errors_monotone [OF m1, of "[''ASPNETCORE_DETAILEDERRORS'' \<mapsto> ''TRUE'']"
      Map.empty "source_of inprocess_section" "source_of inprocess_section" example_macros]
    detailed_errors_monotone [OF m2, of Map.empty Map.empty
      "set_declared_variable example_macros (source_of empty_section)
         ''DOTNET_ENVIRONMENT'' ''development''"
      "source_of empty_section" example_macros]
    m1 m2 a
  show ?thesis by (simp add: inprocess_result empty_example)
qed

text \<open>
  C10. Error precedence: for every configuration source whose hosting-model string is
  invalid (non-empty and matching neither valid spelling), resolution fails with the
  unknown-hosting-model error even when processPath, stdoutLogEnabled, stdoutLogFile or
  disableStartupErrorPage are missing as well. The hosting model is checked before any
  required field is read, so the outcome is the same whatever else the section holds.
\<close>

theorem hosting_model_checked_first:
  assumes "GetRequiredSection source1 (CS_ASPNETCORE_SECTION K) = Inr section1"
    and "GetRequiredSection source2 (CS_ASPNETCORE_SECTION K) = Inr section2"
    and "value_or (GetString section1 (CS_ASPNETCORE_HOSTING_MODEL K)) [] = hostingModel"
    and "value_or (GetString section2 (CS_ASPNETCORE_HOSTING_MODEL K)) [] = hostingModel"
    and "hostingModel \<noteq> []"
    and "\<not> equals_ignore_case hostingModel ''outofprocess''"
    and "\<not> equals_ignore_case hostingModel ''inprocess''"
  shows "ShimOptions_ShimOptions K env1 source1 =
           Inl (ConfigurationLoadException
                  (format unknown_hosting_model_format [hostingModel])) \<and>
         ShimOptions_ShimOptions K env2 source2 = ShimOptions_ShimOptions K env1 source1"
proof -
  have "\<not> valid_hosting_model hostingModel"
    using assms(5-7) by (simp add: valid_hosting_model_iff)
  with assms(1-4) show ?thesis
    by (simp add: GetRequiredSection_Inr ctor_unknown)
qed

theorem hosting_model_checked_first_witness:
  \<open>GetString unknown_section (CS_ASPNETCORE_PROCESS_EXE_PATH example_macros) = None \<and>
   GetBool unknown_section (CS_ASPNETCORE_STDOUT_LOG_ENABLED example_macros) = None \<and>
   GetString unknown_section (CS_ASPNETCORE_STDOUT_LOG_FILE example_macros) = None \<and>
   GetBool unknown_section (CS_ASPNETCORE_DISABLE_START_UP_ERROR_PAGE example_macros) = None \<and>
   GetString unknown_complete_section (CS_ASPNETCORE_PROCESS_EXE_PATH example_macros) =
     Some ''dotnet'' \<and>
   ShimOptions_ShimOptions example_macros Map.empty (source_of unknown_section) =
     Inl (ConfigurationLoadException
       ''Unknown hosting model 'foo'. Please specify either hostingModel="inprocess" or hostingModel="outofprocess" in the web.config file.'') \<and>
   ShimOptions_ShimOptions example_macros Map.empty (source_of unknown_complete_section) =
     ShimOptions_ShimOptions example_macros Map.empty (source_of unknown_section)\<close>
proof -
  have h1: "GetRequiredSection (source_of unknown_section)
      (CS_ASPNETCORE_SECTION example_macros) = Inr unknown_section"
    by (rule example_sections)
  have h2: "GetRequiredSection (source_of unknown_complete_section)
      (CS_ASPNETCORE_SECTION example_macros) = Inr unknown_complete_section"
    by (rule example_sections)
  have h3: "value_or (GetString unknown_section (CS_ASPNETCORE_HOSTING_MODEL example_macros)) []
      = ''foo''"
    by (simp add: unknown_section_def example_macros_def)
  have h4: "value_or (GetString unknown_complete_section
      (CS_ASPNETCORE_HOSTING_MODEL example_macros)) [] = ''foo''"
    by (simp add: unknown_complete_section_def example_macros_def)
  have h5: "GetString unknown_section (CS_ASPNETCORE_PROCESS_EXE_PATH example_macros) = None \<and>
   GetBool unknown_section (CS_ASPNETCORE_STDOUT_LOG_ENABLED example_macros) = None \<and>
   GetString unknown_section (CS_ASPNETCORE_STDOUT_LOG_FILE example_macros) = None \<and>
   GetBool unknown_section (CS_ASPNETCORE_DISABLE_START_UP_ERROR_PAGE example_macros) = None \<and>
   GetString unknown_complete_section (CS_ASPNETCORE_PROCESS_EXE_PATH example_macros) =
     Some ''dotnet''"
    by (simp add: unknown_section_def unknown_complete_section_def inprocess_section_def
        example_macros_def)
  from hosting_model_checked_first [OF h1 h2 h3 h4 foo_invalid, of Map.empty Map.empty] h5
  show ?thesis by (simp add: unknown_message)
qed

end
